theory Spec2Isabelle
  imports Main "HOL-Library.Sublist"
begin

section \<open>AI Novelist Studio: the reactive script of app.py\<close>

text \<open>
  app.py is a single Streamlit script. The framework executes it from top to bottom on
  every interaction; the values that survive from one execution to the next live in
  \<^verbatim>\<open>st.session_state\<close>. The embedding follows the script section by section:
  the data it keeps, the three mock generators, and the widget code around them.

  Python strings are modelled as \<^typ>\<open>string\<close>; a character outside ASCII is its
  UTF-8 byte sequence.
\<close>

subsection \<open>Data\<close>

text \<open>The story bible, lines 41 to 44: a dict with the keys characters and summary.\<close>

record bible =
  characters :: "string \<rightharpoonup> string"
  summary :: string

text \<open>
  \<^verbatim>\<open>st.session_state\<close>: the script only ever uses four keys. A key is absent
  (\<open>None\<close>) until line 40 to 50 create it, and again after \<^verbatim>\<open>clear()\<close>.
\<close>

record session_state =
  story_bible :: "bible option"
  scene_card :: "string option"
  draft :: "string option"
  report :: "string option"

text \<open>
  The object built at line 56, \<^verbatim>\<open>ChatOpenAI(model="gpt-4-turbo", temperature=0.7)\<close>,
  kept as its two constructor arguments; the temperature is the decimal literal in tenths.
\<close>

record chat_openai =
  model :: string
  temperature_tenths :: nat

datatype genre_option = Techno_Thriller | Cyberpunk | High_Fantasy | Romance

datatype tone_option = Light | Balanced | Gritty | Dark

text \<open>The calls that put something on the page, one constructor per call site.\<close>

datatype element =
    Title
  | Tagline
  | Sidebar_Header
  | Api_Key_Input
  | Divider
  | Genre_Select
  | Tone_Slider
  | Style_Input
  | Clear_Button
  | Blueprint_Header
  | Premise_Area
  | Generate_Button
  | Architect_Spinner
  | Edit_Info
  | Scene_Card_Area string
  | Write_Button
  | Drafter_Spinner
  | Manuscript_Header
  | Draft_Success
  | Final_Prose string
  | Analyze_Button
  | Editor_Spinner
  | Report_Expander string
  | Bible_Expander bible
  | Footer_Rule
  | Footer_Caption

text \<open>
  Everything a statement of the script can read or write:
  the session state, \<^verbatim>\<open>os.environ\<close> (a mapping from variable names to values),
  the module-level variable \<^verbatim>\<open>llm\<close>, the requests sent to the chat model,
  the seconds spent in \<^verbatim>\<open>time.sleep\<close>, and the page rendered by the current run.
\<close>

record world =
  session :: session_state
  environ :: "string \<rightharpoonup> string"
  llm :: "chat_openai option"
  llm_requests :: "string list"
  slept :: nat
  page :: "element list"

subsection \<open>The mock generators, lines 62 to 93\<close>

definition sleep :: "nat \<Rightarrow> world \<Rightarrow> world" where
  "sleep n w = w\<lparr>slept := slept w + n\<rparr>"

text \<open>The em dash of line 78, U+2014, in UTF-8.\<close>

definition em_dash :: string where
  "em_dash = [CHR 0xE2, CHR 0x80, CHR 0x94]"

definition generate_outline :: "string \<Rightarrow> string \<Rightarrow> string \<Rightarrow> world \<Rightarrow> string \<times> world" where
  \<open>generate_outline = (\<lambda>premise genre context w.
     let w' = sleep 2 w in
     (''{\<newline>'' @
      ''    "title": "Mock Outline for '' @ genre @ ''",\<newline>'' @
      ''    "beats": [\<newline>'' @
      ''        "1. '' @ premise @ '' (The Setup)",\<newline>'' @
      ''        "2. The protagonist faces a glitch in the system.",\<newline>'' @
      ''        "3. A sudden betrayal occurs.",\<newline>'' @
      ''        "4. Cliffhanger ending."\<newline>'' @
      ''    ]\<newline>'' @
      ''}'', w'))\<close>

definition write_draft :: "string \<Rightarrow> string \<Rightarrow> world \<Rightarrow> string \<times> world" where
  \<open>write_draft = (\<lambda>scene_card style w.
     let w' = sleep 3 w in
     (''\<newline>'' @
      ''    The neon lights of the server room hummed with a headache-inducing buzz. \<newline>'' @
      ''    This was the style of '' @ style @ em_dash @ ''short, punchy, no nonsense.\<newline>'' @
      ''    \<newline>'' @
      ''    "System breach," the console read.\<newline>'' @
      ''    \<newline>'' @
      ''    He didn't panic. He never panicked. He just typed faster, his fingers blurring like hummingbirds against the mechanical keys.\<newline>'' @
      ''    (This is a mock draft generated based on: '' @ scene_card @ '')\<newline>'' @
      ''    '', w'))\<close>

definition critique_draft :: "string \<Rightarrow> string \<Rightarrow> world \<Rightarrow> string \<times> world" where
  \<open>critique_draft = (\<lambda>draft genre w.
     let w' = sleep 2 w in
     (''\<newline>'' @
      ''    # Editorial Report\<newline>'' @
      ''    * **Genre Compliance:** '' @ genre @ '' conventions are met.\<newline>'' @
      ''    * **Pacing:** Good, but the middle section drags.\<newline>'' @
      ''    * **Logic Check:** Why did the console buzz? Servers are usually silent.\<newline>'' @
      ''    '', w'))\<close>

subsection \<open>Widgets and outcomes of a run\<close>

text \<open>
  What the widgets return in one execution of the script, named after the variables they are
  bound to. A button is \<open>True\<close> only in the execution its click starts. The scene-card
  text area of line 113 has no key, so the framework identifies it by its \<^verbatim>\<open>value\<close>
  argument: \<open>scene_card_edit\<close> gives, for each such argument, the text the user has typed
  over it, if any.
\<close>

record widgets =
  api_key :: string
  genre :: genre_option
  tone :: tone_option
  style :: string
  clear_clicked :: bool
  premise_input :: string
  generate_clicked :: bool
  scene_card_edit :: "string \<Rightarrow> string option"
  write_clicked :: bool
  analyze_clicked :: bool

fun genre_name :: "genre_option \<Rightarrow> string" where
  "genre_name Techno_Thriller = ''Techno-Thriller''"
| "genre_name Cyberpunk = ''Cyberpunk''"
| "genre_name High_Fantasy = ''High Fantasy''"
| "genre_name Romance = ''Romance''"

datatype py_error = KeyError | ValueError

text \<open>
  A section of the script runs through (\<open>Normal\<close>), stops at \<^verbatim>\<open>st.rerun()\<close>, which makes
  the framework execute the script again, or stops at an exception.
\<close>

datatype outcome = Normal | Rerun | Raised py_error

definition and_then :: "outcome \<times> world \<Rightarrow> (world \<Rightarrow> outcome \<times> world) \<Rightarrow> outcome \<times> world" where
  "and_then r f = (case r of (Normal, w) \<Rightarrow> f w | (Rerun, w) \<Rightarrow> (Rerun, w) | (Raised e, w) \<Rightarrow> (Raised e, w))"

definition emit :: "element list \<Rightarrow> world \<Rightarrow> world" where
  "emit es w = w\<lparr>page := page w @ es\<rparr>"

subsection \<open>The script, section by section\<close>

text \<open>Lines 10 to 13. Each execution renders a new page.\<close>

definition page_header :: "world \<Rightarrow> world" where
  "page_header w = emit [Title, Tagline] (w\<lparr>page := []\<rparr>)"

text \<open>\<^verbatim>\<open>st.session_state.clear()\<close> removes every key.\<close>

definition session_clear :: session_state where
  "session_clear = \<lparr>story_bible = None, scene_card = None, draft = None, report = None\<rparr>"

text \<open>
  Lines 16 to 34, the sidebar: the API key goes to the environment, the reset button.
  The assignment of line 22 passes the value to the operating system, which takes no string
  that holds the NUL character: the assignment raises \<^verbatim>\<open>ValueError\<close> (embedded null byte)
  and the environment stays as it was. Nothing in the script catches the exception, so the
  execution ends there.
\<close>

definition sidebar :: "widgets \<Rightarrow> world \<Rightarrow> outcome \<times> world" where
  "sidebar i w =
    (let w1 = emit [Sidebar_Header, Api_Key_Input] w in
     and_then
      (if api_key i \<noteq> [] then
         (if CHR 0x00 \<in> set (api_key i)
          then (Raised ValueError, w1)
          else (Normal, w1\<lparr>environ := (environ w1)(''OPENAI_API_KEY'' \<mapsto> api_key i)\<rparr>))
       else (Normal, w1))
      (\<lambda>w2.
        let w3 = emit [Divider, Genre_Select, Tone_Slider, Style_Input, Clear_Button] w2
        in if clear_clicked i
           then (Rerun, w3\<lparr>session := session_clear\<rparr>)
           else (Normal, w3)))"

text \<open>Lines 40 to 50: a key that is absent gets its start value.\<close>

definition initial_bible :: bible where
  "initial_bible = \<lparr>characters = Map.empty, summary = ''Start of the story.''\<rparr>"

definition session_init :: "world \<Rightarrow> world" where
  "session_init w =
    (let s0 = session w;
         s1 = (if story_bible s0 = None then s0\<lparr>story_bible := Some initial_bible\<rparr> else s0);
         s2 = (if scene_card s1 = None then s1\<lparr>scene_card := Some []\<rparr> else s1);
         s3 = (if draft s2 = None then s2\<lparr>draft := Some []\<rparr> else s2);
         s4 = (if report s3 = None then s3\<lparr>report := Some []\<rparr> else s3)
     in w\<lparr>session := s4\<rparr>)"

text \<open>Lines 54 to 56.\<close>

definition llm_setup :: "widgets \<Rightarrow> world \<Rightarrow> world" where
  "llm_setup i w =
    (let w1 = w\<lparr>llm := None\<rparr>
     in if api_key i \<noteq> []
        then w1\<lparr>llm := Some \<lparr>model = ''gpt-4-turbo'', temperature_tenths = 7\<rparr>\<rparr>
        else w1)"

text \<open>
  Lines 98 to 119, the left column. \<^verbatim>\<open>json.dumps\<close> is the library's; it is a
  parameter of the model.
\<close>

definition blueprint :: "(bible \<Rightarrow> string) \<Rightarrow> widgets \<Rightarrow> world \<Rightarrow> outcome \<times> world" where
  "blueprint json_dumps i w0 =
    (let w1 = emit [Blueprint_Header, Premise_Area, Generate_Button] w0 in
     and_then
      (if generate_clicked i then
         (let w2 = emit [Architect_Spinner] w1 in
          case story_bible (session w2) of
            None \<Rightarrow> (Raised KeyError, w2)
          | Some b \<Rightarrow>
             (let bible_context = json_dumps b;
                  (outline, w3) = generate_outline (premise_input i) (genre_name (genre i)) bible_context w2
              in (Rerun, w3\<lparr>session := (session w3)\<lparr>scene_card := Some outline\<rparr>\<rparr>)))
       else (Normal, w1))
      (\<lambda>w4.
        case scene_card (session w4) of
          None \<Rightarrow> (Raised KeyError, w4)
        | Some shown \<Rightarrow>
           if shown \<noteq> [] then
             (let w5 = emit [Edit_Info, Scene_Card_Area shown] w4;
                  edited_card = (case scene_card_edit i shown of None \<Rightarrow> shown | Some t \<Rightarrow> t);
                  w6 = w5\<lparr>session := (session w5)\<lparr>scene_card := Some edited_card\<rparr>\<rparr>;
                  w7 = emit [Write_Button] w6
              in if write_clicked i then
                   (let w8 = emit [Drafter_Spinner] w7 in
                    case scene_card (session w8) of
                      None \<Rightarrow> (Raised KeyError, w8)
                    | Some c \<Rightarrow>
                       (let (d, w9) = write_draft c (style i) w8
                        in (Rerun, w9\<lparr>session := (session w9)\<lparr>draft := Some d\<rparr>\<rparr>)))
                 else (Normal, w7))
           else (Normal, w4)))"

text \<open>Lines 121 to 142, the right column.\<close>

definition manuscript :: "widgets \<Rightarrow> world \<Rightarrow> outcome \<times> world" where
  "manuscript i w0 =
    (let w1 = emit [Manuscript_Header] w0 in
     and_then
      (case draft (session w1) of
         None \<Rightarrow> (Raised KeyError, w1)
       | Some d \<Rightarrow>
          if d \<noteq> [] then
            (let w2 = emit [Draft_Success, Final_Prose d, Analyze_Button] w1
             in if analyze_clicked i then
                  (let w3 = emit [Editor_Spinner] w2;
                       (r, w4) = critique_draft d (genre_name (genre i)) w3;
                       w5 = w4\<lparr>session := (session w4)\<lparr>report := Some r\<rparr>\<rparr>
                   in case story_bible (session w5) of
                        None \<Rightarrow> (Raised KeyError, w5)
                      | Some b \<Rightarrow>
                         (let b' = b\<lparr>summary := summary b @ '' -> Processed premise: '' @ premise_input i\<rparr>
                          in (Rerun, w5\<lparr>session := (session w5)\<lparr>story_bible := Some b'\<rparr>\<rparr>)))
                else (Normal, w2))
          else (Normal, w1))
      (\<lambda>w6.
        case report (session w6) of
          None \<Rightarrow> (Raised KeyError, w6)
        | Some r \<Rightarrow>
           if r \<noteq> [] then
             (let w7 = emit [Report_Expander r] w6
              in case story_bible (session w7) of
                   None \<Rightarrow> (Raised KeyError, w7)
                 | Some b \<Rightarrow> (Normal, emit [Bible_Expander b] w7))
           else (Normal, w6)))"

text \<open>Lines 145 and 146.\<close>

definition footer :: "world \<Rightarrow> world" where
  "footer w = emit [Footer_Rule, Footer_Caption] w"

text \<open>One execution of app.py, top to bottom.\<close>

definition script :: "(bible \<Rightarrow> string) \<Rightarrow> widgets \<Rightarrow> world \<Rightarrow> outcome \<times> world" where
  "script json_dumps i w =
    and_then (sidebar i (page_header w)) (\<lambda>w1.
    and_then (blueprint json_dumps i (llm_setup i (session_init w1))) (\<lambda>w2.
    and_then (manuscript i w2) (\<lambda>w3.
    (Normal, footer w3))))"

subsection \<open>Interactions\<close>

text \<open>
  The execution that \<^verbatim>\<open>st.rerun()\<close> starts is not started by a click: every button
  returns \<open>False\<close> in it.
\<close>

definition released :: "widgets \<Rightarrow> widgets" where
  "released j = j\<lparr>clear_clicked := False, generate_clicked := False,
                   write_clicked := False, analyze_clicked := False\<rparr>"

text \<open>
  One interaction of the user: the script runs with the widget values \<open>i\<close>; when it stops at
  \<^verbatim>\<open>st.rerun()\<close> it runs once more, with the widget values \<open>j\<close> and no button pressed.
\<close>

definition interaction :: "(bible \<Rightarrow> string) \<Rightarrow> widgets \<Rightarrow> widgets \<Rightarrow> world \<Rightarrow> world" where
  "interaction json_dumps i j w =
    (case script json_dumps i w of
       (Rerun, w') \<Rightarrow> snd (script json_dumps (released j) w')
     | (Normal, w') \<Rightarrow> w'
     | (Raised e, w') \<Rightarrow> w')"

text \<open>
  The states a session can be in: it starts with an empty session state, and
  every interaction leads from a state to the next.
\<close>

inductive reachable :: "(bible \<Rightarrow> string) \<Rightarrow> world \<Rightarrow> bool" for json_dumps where
  first_load: "session w = session_clear \<Longrightarrow> reachable json_dumps (interaction json_dumps i j w)"
| next_interaction: "reachable json_dumps w \<Longrightarrow> reachable json_dumps (interaction json_dumps i j w)"

subsection \<open>Auxiliary notions\<close>

text \<open>A bible that is the start value of line 41 to 44 with text appended to its summary.\<close>

definition started :: "bible \<Rightarrow> bool" where
  "started b \<longleftrightarrow> (\<exists>t. b = \<lparr>characters = Map.empty, summary = ''Start of the story.'' @ t\<rparr>)"

text \<open>
  Which elements a page holds, whatever they show: \<open>blank\<close> erases the text or the bible
  an element displays.
\<close>

fun blank :: "element \<Rightarrow> element" where
  "blank (Scene_Card_Area v) = Scene_Card_Area []"
| "blank (Final_Prose v) = Final_Prose []"
| "blank (Report_Expander v) = Report_Expander []"
| "blank (Bible_Expander b) = Bible_Expander initial_bible"
| "blank e = e"

definition layout :: "world \<Rightarrow> element list" where
  "layout w = map blank (page w)"

text \<open>
  Sample values: a process that has just started, and the widgets as the page first shows
  them, with a premise typed in.
\<close>

definition fresh_world :: world where
  "fresh_world = \<lparr>session = session_clear, environ = Map.empty, llm = None,
                   llm_requests = [], slept = 0, page = []\<rparr>"

definition at_rest :: widgets where
  "at_rest = \<lparr>api_key = [], genre = Techno_Thriller, tone = Light,
               style = ''Hemingway-esque brevity'', clear_clicked = False,
               premise_input = ''Jinx hacks the mainframe.'', generate_clicked = False,
               scene_card_edit = (\<lambda>v. None), write_clicked = False, analyze_clicked = False\<rparr>"

definition plain_dumps :: "bible \<Rightarrow> string" where
  "plain_dumps b = summary b"

text \<open>A state in the middle of a session, and the state after one pass through the three steps.\<close>

definition drafted_world :: world where
  "drafted_world = fresh_world\<lparr>session :=
     \<lparr>story_bible = Some \<lparr>characters = Map.empty,
                           summary = ''Start of the story. -> Processed premise: An earlier chapter.''\<rparr>,
      scene_card = Some ''An earlier outline.'',
      draft = Some ''An earlier draft.'',
      report = Some ''An earlier report.''\<rparr>\<rparr>"

definition analysed_world :: world where
  "analysed_world =
     interaction plain_dumps (at_rest\<lparr>analyze_clicked := True\<rparr>) at_rest
       (interaction plain_dumps (at_rest\<lparr>write_clicked := True\<rparr>) at_rest
         (interaction plain_dumps (at_rest\<lparr>generate_clicked := True\<rparr>) at_rest
           (interaction plain_dumps at_rest at_rest fresh_world)))"

section \<open>Properties\<close>

subsection \<open>Auxiliary lemmas\<close>

lemma sublist_skip: "sublist xs ys \<Longrightarrow> sublist xs (ps @ ys)"
  by (metis append.assoc sublist_def)

lemma generate_outline_world: "snd (generate_outline p g c w) = sleep 2 w"
  by (simp add: generate_outline_def Let_def)
lemma write_draft_world: "snd (write_draft c s w) = sleep 3 w"
  by (simp add: write_draft_def Let_def)
lemma critique_draft_world: "snd (critique_draft d g w) = sleep 2 w"
  by (simp add: critique_draft_def Let_def)

lemmas generator_world = generate_outline_world write_draft_world critique_draft_world

lemma sleep_fields:
  "session (sleep n w) = session w" "environ (sleep n w) = environ w" "llm (sleep n w) = llm w"
  "llm_requests (sleep n w) = llm_requests w" "page (sleep n w) = page w"
  by (simp_all add: sleep_def)

lemma emit_fields:
  "session (emit es w) = session w" "environ (emit es w) = environ w" "llm (emit es w) = llm w"
  "llm_requests (emit es w) = llm_requests w" "slept (emit es w) = slept w" "page (emit es w) = page w @ es"
  by (simp_all add: emit_def)

lemma and_then_frame:
  assumes "\<And>v. g (snd (f v)) = g v"
  shows "g (snd (and_then r f)) = g (snd r)"
  using assms by (cases r) (simp add: and_then_def split: outcome.splits)

lemma blueprint_environ: "environ (snd (blueprint dumps i w)) = environ w"
  unfolding blueprint_def Let_def
  by (subst and_then_frame)
     (simp_all add: sleep_fields emit_fields generator_world case_prod_beta split: option.splits)

lemma manuscript_environ: "environ (snd (manuscript i w)) = environ w"
  unfolding manuscript_def Let_def
  by (subst and_then_frame)
     (simp_all add: sleep_fields emit_fields generator_world case_prod_beta split: option.splits)

lemma script_environ:
  "environ (snd (script dumps i w)) =
     (if api_key i \<noteq> [] \<and> CHR 0x00 \<notin> set (api_key i)
      then (environ w)(''OPENAI_API_KEY'' \<mapsto> api_key i) else environ w)"
proof -
  have side: "environ (snd (sidebar i (page_header w))) =
     (if api_key i \<noteq> [] \<and> CHR 0x00 \<notin> set (api_key i)
      then (environ w)(''OPENAI_API_KEY'' \<mapsto> api_key i) else environ w)"
    by (simp add: sidebar_def page_header_def Let_def emit_def and_then_def)
  have rest: "\<And>v. environ (snd (and_then (blueprint dumps i (llm_setup i (session_init v)))
             (\<lambda>w2. and_then (manuscript i w2) (\<lambda>w3. (Normal, footer w3))))) = environ v"
    by (simp add: and_then_frame manuscript_environ blueprint_environ footer_def emit_fields
          llm_setup_def session_init_def Let_def)
  show ?thesis
    unfolding script_def by (simp add: and_then_frame [where g = environ, OF rest] side)
qed

lemma and_then_Normal: "fst r = Normal \<Longrightarrow> and_then r f = f (snd r)"
  by (cases r) (simp add: and_then_def)

lemma and_then_Rerun: "fst r = Rerun \<Longrightarrow> and_then r f = r"
  by (cases r) (simp add: and_then_def)

lemma and_then_Raised: "fst r = Raised e \<Longrightarrow> and_then r f = r"
  by (cases r) (simp add: and_then_def)

lemma sidebar_fst:
  "fst (sidebar i w) =
     (if CHR 0x00 \<in> set (api_key i) then Raised ValueError
      else if clear_clicked i then Rerun else Normal)"
  by (auto simp: sidebar_def Let_def and_then_def)

lemma sidebar_session:
  "session (snd (sidebar i w)) =
     (if CHR 0x00 \<notin> set (api_key i) \<and> clear_clicked i then session_clear else session w)"
  by (auto simp: sidebar_def Let_def emit_def and_then_def)

lemma sidebar_rejected:
  "CHR 0x00 \<in> set (api_key i) \<Longrightarrow>
     sidebar i w = (Raised ValueError, emit [Sidebar_Header, Api_Key_Input] w)"
  by (auto simp: sidebar_def Let_def and_then_def)

lemma page_header_fields:
  "session (page_header w) = session w" "llm (page_header w) = llm w"
  by (simp_all add: page_header_def emit_def)

lemma session_init_session:
  "session (session_init w) =
     \<lparr>story_bible = Some (case story_bible (session w) of None \<Rightarrow> initial_bible | Some b \<Rightarrow> b),
      scene_card = Some (case scene_card (session w) of None \<Rightarrow> [] | Some c \<Rightarrow> c),
      draft = Some (case draft (session w) of None \<Rightarrow> [] | Some d \<Rightarrow> d),
      report = Some (case report (session w) of None \<Rightarrow> [] | Some r \<Rightarrow> r)\<rparr>"
  by (cases "session w") (simp add: session_init_def Let_def split: option.splits)

lemma llm_setup_session: "session (llm_setup i w) = session w"
  by (simp add: llm_setup_def Let_def)

lemma llm_setup_llm:
  "llm (llm_setup i w) =
     (if api_key i \<noteq> [] then Some \<lparr>model = ''gpt-4-turbo'', temperature_tenths = 7\<rparr> else None)"
  by (simp add: llm_setup_def Let_def)

lemma blueprint_llm: "llm (snd (blueprint dumps i w)) = llm w"
  unfolding blueprint_def Let_def
  by (subst and_then_frame)
     (simp_all add: sleep_fields emit_fields generator_world case_prod_beta split: option.splits)

lemma manuscript_llm: "llm (snd (manuscript i w)) = llm w"
  unfolding manuscript_def Let_def
  by (subst and_then_frame)
     (simp_all add: sleep_fields emit_fields generator_world case_prod_beta split: option.splits)

lemma blueprint_story_bible:
  "story_bible (session (snd (blueprint dumps i w))) = story_bible (session w)"
  unfolding blueprint_def Let_def
  by (subst and_then_frame [where g = "\<lambda>v. story_bible (session v)"])
     (simp_all add: sleep_fields emit_fields generator_world case_prod_beta split: option.splits)

lemma blueprint_report:
  "report (session (snd (blueprint dumps i w))) = report (session w)"
  unfolding blueprint_def Let_def
  by (subst and_then_frame [where g = "\<lambda>v. report (session v)"])
     (simp_all add: sleep_fields emit_fields generator_world case_prod_beta split: option.splits)

lemma blueprint_draft:
  "generate_clicked i \<or> \<not> write_clicked i \<Longrightarrow>
     draft (session (snd (blueprint dumps i w))) = draft (session w)"
  by (auto simp: blueprint_def Let_def and_then_def sleep_fields emit_fields generator_world
        case_prod_beta split: option.splits)

lemma blueprint_generate:
  "generate_clicked i \<Longrightarrow> story_bible (session w) = Some b \<Longrightarrow>
     fst (blueprint dumps i w) = Rerun \<and>
     scene_card (session (snd (blueprint dumps i w))) =
       Some (fst (generate_outline (premise_input i) (genre_name (genre i)) (dumps b)
          (emit [Architect_Spinner] (emit [Blueprint_Header, Premise_Area, Generate_Button] w))))"
  by (simp add: blueprint_def Let_def and_then_def sleep_fields emit_fields generator_world
        case_prod_beta)

lemma blueprint_idle:
  "\<not> generate_clicked i \<Longrightarrow> \<not> write_clicked i \<Longrightarrow> scene_card (session w) = Some c \<Longrightarrow>
     fst (blueprint dumps i w) = Normal \<and>
     draft (session (snd (blueprint dumps i w))) = draft (session w) \<and>
     scene_card (session (snd (blueprint dumps i w))) =
       Some (if c \<noteq> [] then (case scene_card_edit i c of None \<Rightarrow> c | Some t \<Rightarrow> t) else c)"
  by (simp add: blueprint_def Let_def and_then_def sleep_fields emit_fields)

lemma manuscript_idle:
  "\<not> analyze_clicked i \<Longrightarrow> draft (session w) = Some d \<Longrightarrow> report (session w) = Some r \<Longrightarrow>
   story_bible (session w) = Some b \<Longrightarrow>
     fst (manuscript i w) = Normal \<and> session (snd (manuscript i w)) = session w"
  by (simp add: manuscript_def Let_def and_then_def sleep_fields emit_fields)

lemma manuscript_story_bible:
  "\<exists>t. story_bible (session (snd (manuscript i w))) =
        map_option (\<lambda>b. b\<lparr>summary := summary b @ t\<rparr>) (story_bible (session w))"
proof (cases "analyze_clicked i \<and> (\<exists>d. draft (session w) = Some d \<and> d \<noteq> [])")
  case True
  then have "story_bible (session (snd (manuscript i w))) =
        map_option (\<lambda>b. b\<lparr>summary := summary b @ ('' -> Processed premise: '' @ premise_input i)\<rparr>)
          (story_bible (session w))"
    by (auto simp: manuscript_def Let_def and_then_def sleep_fields emit_fields generator_world
          case_prod_beta split: option.splits)
  then show ?thesis ..
next
  case False
  then have "story_bible (session (snd (manuscript i w))) = story_bible (session w)"
    by (auto simp: manuscript_def Let_def and_then_def sleep_fields emit_fields generator_world
          case_prod_beta split: option.splits)
  then have "story_bible (session (snd (manuscript i w))) =
        map_option (\<lambda>b. b\<lparr>summary := summary b @ []\<rparr>) (story_bible (session w))"
    by (simp add: option.map_ident)
  then show ?thesis ..
qed


lemma snd_and_then: "snd (and_then r f) = (if fst r = Normal then snd (f (snd r)) else snd r)"
  by (cases r) (simp add: and_then_def split: outcome.splits)

lemma fst_and_then: "fst (and_then r f) = (if fst r = Normal then fst (f (snd r)) else fst r)"
  by (cases r) (simp add: and_then_def split: outcome.splits)

lemma script_rejected:
  assumes "CHR 0x00 \<in> set (api_key i)"
  shows "script dumps i w =
     (Raised ValueError, emit [Sidebar_Header, Api_Key_Input] (page_header w))"
  by (simp add: script_def sidebar_rejected [OF assms] and_then_def)

lemma script_clear:
  "clear_clicked i \<Longrightarrow> CHR 0x00 \<notin> set (api_key i) \<Longrightarrow>
     fst (script dumps i w) = Rerun \<and> session (snd (script dumps i w)) = session_clear"
  by (simp add: script_def and_then_Rerun sidebar_fst sidebar_session)

lemma script_Rerun_not_clear:
  "\<not> clear_clicked i \<Longrightarrow> CHR 0x00 \<notin> set (api_key i) \<Longrightarrow>
     script dumps i w =
       and_then (blueprint dumps i (llm_setup i (session_init (snd (sidebar i (page_header w))))))
         (\<lambda>w2. and_then (manuscript i w2) (\<lambda>w3. (Normal, footer w3)))"
  by (simp add: script_def and_then_Normal sidebar_fst)

lemma footer_fields: "session (footer w) = session w" "llm (footer w) = llm w"
  by (simp_all add: footer_def emit_def)

lemma script_story_bible:
  assumes "\<not> clear_clicked i" and ok: "CHR 0x00 \<notin> set (api_key i)"
  shows "\<exists>t. story_bible (session (snd (script dumps i w))) =
     Some ((case story_bible (session w) of None \<Rightarrow> initial_bible | Some b \<Rightarrow> b)
            \<lparr>summary := summary (case story_bible (session w) of None \<Rightarrow> initial_bible | Some b \<Rightarrow> b) @ t\<rparr>)"
proof -
  define w1 where "w1 = llm_setup i (session_init (snd (sidebar i (page_header w))))"
  define b0 where "b0 = (case story_bible (session w) of None \<Rightarrow> initial_bible | Some b \<Rightarrow> b)"
  have start: "story_bible (session w1) = Some b0"
    using assms(1) ok
    by (simp add: w1_def b0_def llm_setup_session session_init_session sidebar_session page_header_fields)
  have run: "script dumps i w =
      and_then (blueprint dumps i w1) (\<lambda>w2. and_then (manuscript i w2) (\<lambda>w3. (Normal, footer w3)))"
    using assms(1) ok by (simp add: script_Rerun_not_clear w1_def)
  have tail: "story_bible (session (snd (and_then (manuscript i v) (\<lambda>w3. (Normal, footer w3))))) =
      story_bible (session (snd (manuscript i v)))" for v
    by (simp add: snd_and_then footer_fields)
  show ?thesis
  proof (cases "fst (blueprint dumps i w1) = Normal")
    case True
    obtain t where "story_bible (session (snd (manuscript i (snd (blueprint dumps i w1))))) =
        map_option (\<lambda>b. b\<lparr>summary := summary b @ t\<rparr>)
          (story_bible (session (snd (blueprint dumps i w1))))"
      using manuscript_story_bible by blast
    then have "story_bible (session (snd (script dumps i w))) = Some (b0\<lparr>summary := summary b0 @ t\<rparr>)"
      using True by (simp add: run snd_and_then footer_fields blueprint_story_bible start)
    then show ?thesis unfolding b0_def by blast
  next
    case False
    then have "story_bible (session (snd (script dumps i w))) = Some (b0\<lparr>summary := summary b0 @ []\<rparr>)"
      by (simp add: run snd_and_then blueprint_story_bible start)
    then show ?thesis unfolding b0_def by blast
  qed
qed

lemma released_fields:
  "\<not> clear_clicked (released j)" "\<not> generate_clicked (released j)"
  "\<not> write_clicked (released j)" "\<not> analyze_clicked (released j)"
  "api_key (released j) = api_key j" "scene_card_edit (released j) = scene_card_edit j"
  by (simp_all add: released_def)

lemma interaction_cases:
  "(CHR 0x00 \<in> set (api_key i) \<and> interaction dumps i j w = snd (script dumps i w)
      \<and> session (snd (script dumps i w)) = session w)
   \<or> (CHR 0x00 \<notin> set (api_key i) \<and> clear_clicked i
      \<and> interaction dumps i j w = snd (script dumps (released j) (snd (script dumps i w)))
      \<and> session (snd (script dumps i w)) = session_clear)
   \<or> (CHR 0x00 \<notin> set (api_key i) \<and> \<not> clear_clicked i \<and> fst (script dumps i w) = Rerun
      \<and> interaction dumps i j w = snd (script dumps (released j) (snd (script dumps i w))))
   \<or> (CHR 0x00 \<notin> set (api_key i) \<and> \<not> clear_clicked i
      \<and> interaction dumps i j w = snd (script dumps i w))"
proof (cases "CHR 0x00 \<in> set (api_key i)")
  case True
  then show ?thesis
    by (simp add: interaction_def script_rejected emit_fields page_header_fields)
next
  case ok: False
  show ?thesis
  proof (cases "clear_clicked i")
    case True
    then show ?thesis
      using ok script_clear [OF True ok, of dumps w]
      by (cases "script dumps i w") (simp add: interaction_def)
  next
    case False
    then show ?thesis
      using ok by (cases "script dumps i w") (simp add: interaction_def split: outcome.splits)
  qed
qed

lemma started_initial: "started initial_bible"
  by (simp add: started_def initial_bible_def)

lemma started_append: "started b \<Longrightarrow> started (b\<lparr>summary := summary b @ t\<rparr>)"
  by (auto simp: started_def)

lemma script_started:
  assumes "\<not> clear_clicked i"
    and "story_bible (session w) = None \<or> (\<exists>b. story_bible (session w) = Some b \<and> started b)"
    and ok: "CHR 0x00 \<notin> set (api_key i)"
  shows "\<exists>b. story_bible (session (snd (script dumps i w))) = Some b \<and> started b"
proof -
  have "started (case story_bible (session w) of None \<Rightarrow> initial_bible | Some b \<Rightarrow> b)"
    using assms(2) by (auto simp: started_initial)
  then show ?thesis
    using script_story_bible [OF assms(1) ok, of dumps w] by (auto intro: started_append)
qed

lemma script_started_or_absent:
  assumes "story_bible (session w) = None \<or> (\<exists>b. story_bible (session w) = Some b \<and> started b)"
  shows "story_bible (session (snd (script dumps i w))) = None
     \<or> (\<exists>b. story_bible (session (snd (script dumps i w))) = Some b \<and> started b)"
proof (cases "CHR 0x00 \<in> set (api_key i)")
  case True
  then show ?thesis
    using assms by (simp add: script_rejected emit_fields page_header_fields)
next
  case ok: False
  show ?thesis
  proof (cases "clear_clicked i")
    case True
    then show ?thesis using script_clear [OF True ok, of dumps w] by (simp add: session_clear_def)
  next
    case False
    then show ?thesis using script_started [OF False assms ok] by blast
  qed
qed

lemma interaction_started_or_absent:
  assumes "story_bible (session w) = None \<or> (\<exists>b. story_bible (session w) = Some b \<and> started b)"
  shows "story_bible (session (interaction dumps i j w)) = None
     \<or> (\<exists>b. story_bible (session (interaction dumps i j w)) = Some b \<and> started b)"
proof -
  note mid = script_started_or_absent [OF assms, of dumps i]
  note last = script_started_or_absent [OF mid, of dumps "released j"]
  from interaction_cases [of i dumps j w] show ?thesis
    using mid last by (elim disjE conjE) simp_all
qed

lemma interaction_started:
  assumes "story_bible (session w) = None \<or> (\<exists>b. story_bible (session w) = Some b \<and> started b)"
    and oki: "CHR 0x00 \<notin> set (api_key i)" and okj: "CHR 0x00 \<notin> set (api_key j)"
  shows "\<exists>b. story_bible (session (interaction dumps i j w)) = Some b \<and> started b"
proof -
  note mid = script_started_or_absent [OF assms(1), of dumps i]
  have okr: "CHR 0x00 \<notin> set (api_key (released j))"
    using okj by (simp add: released_fields)
  note last = script_started [OF released_fields(1) mid okr]
  from interaction_cases [of i dumps j w] show ?thesis
  proof (elim disjE conjE)
    assume "CHR 0x00 \<in> set (api_key i)"
    with oki show ?thesis by simp
  next
    assume "interaction dumps i j w = snd (script dumps (released j) (snd (script dumps i w)))"
    then show ?thesis using last by simp
  next
    assume "interaction dumps i j w = snd (script dumps (released j) (snd (script dumps i w)))"
    then show ?thesis using last by simp
  next
    assume "\<not> clear_clicked i" "interaction dumps i j w = snd (script dumps i w)"
    then show ?thesis
      using script_started [OF _ assms(1) oki, of dumps] by simp
  qed
qed

lemma reachable_started:
  "reachable dumps w \<Longrightarrow>
     story_bible (session w) = None \<or> (\<exists>b. story_bible (session w) = Some b \<and> started b)"
proof (induction rule: reachable.induct)
  case (first_load w i j)
  then show ?case by (intro interaction_started_or_absent) (simp add: session_clear_def)
next
  case (next_interaction w i j)
  then show ?case by (intro interaction_started_or_absent)
qed

lemma script_llm:
  "\<not> clear_clicked i \<Longrightarrow> CHR 0x00 \<notin> set (api_key i) \<Longrightarrow>
     llm (snd (script dumps i w)) =
       (if api_key i \<noteq> [] then Some \<lparr>model = ''gpt-4-turbo'', temperature_tenths = 7\<rparr> else None)"
  by (simp add: script_Rerun_not_clear and_then_frame [where g = llm] footer_fields
        manuscript_llm blueprint_llm llm_setup_llm)

lemma script_idle:
  assumes "\<not> clear_clicked i" "\<not> generate_clicked i" "\<not> write_clicked i" "\<not> analyze_clicked i"
    and ok: "CHR 0x00 \<notin> set (api_key i)"
  shows "fst (script dumps i w) = Normal"
    and "story_bible (session (snd (script dumps i w))) =
           Some (case story_bible (session w) of None \<Rightarrow> initial_bible | Some b \<Rightarrow> b)"
    and "draft (session (snd (script dumps i w))) =
           Some (case draft (session w) of None \<Rightarrow> [] | Some d \<Rightarrow> d)"
    and "report (session (snd (script dumps i w))) =
           Some (case report (session w) of None \<Rightarrow> [] | Some r \<Rightarrow> r)"
    and "scene_card (session (snd (script dumps i w))) =
           Some (case scene_card (session w) of None \<Rightarrow> [] | Some c \<Rightarrow>
                   if c \<noteq> [] then (case scene_card_edit i c of None \<Rightarrow> c | Some t \<Rightarrow> t) else c)"
proof -
  define w1 where "w1 = llm_setup i (session_init (snd (sidebar i (page_header w))))"
  have s1: "session w1 =
     \<lparr>story_bible = Some (case story_bible (session w) of None \<Rightarrow> initial_bible | Some b \<Rightarrow> b),
      scene_card = Some (case scene_card (session w) of None \<Rightarrow> [] | Some c \<Rightarrow> c),
      draft = Some (case draft (session w) of None \<Rightarrow> [] | Some d \<Rightarrow> d),
      report = Some (case report (session w) of None \<Rightarrow> [] | Some r \<Rightarrow> r)\<rparr>"
    using assms(1) ok
    by (simp add: w1_def llm_setup_session session_init_session sidebar_session page_header_fields)
  have run: "script dumps i w =
      and_then (blueprint dumps i w1) (\<lambda>w2. and_then (manuscript i w2) (\<lambda>w3. (Normal, footer w3)))"
    using assms(1) ok by (simp add: script_Rerun_not_clear w1_def)
  define w2 where "w2 = snd (blueprint dumps i w1)"
  have bp: "fst (blueprint dumps i w1) = Normal"
      "draft (session w2) = draft (session w1)"
      "scene_card (session w2) =
         Some (if (case scene_card (session w) of None \<Rightarrow> [] | Some c \<Rightarrow> c) \<noteq> []
               then (case scene_card_edit i (case scene_card (session w) of None \<Rightarrow> [] | Some c \<Rightarrow> c) of
                       None \<Rightarrow> (case scene_card (session w) of None \<Rightarrow> [] | Some c \<Rightarrow> c) | Some t \<Rightarrow> t)
               else (case scene_card (session w) of None \<Rightarrow> [] | Some c \<Rightarrow> c))"
    using blueprint_idle [OF assms(2,3), of w1 _ dumps] by (simp_all add: s1 w2_def)
  have bp2: "story_bible (session w2) = story_bible (session w1)" "report (session w2) = report (session w1)"
    by (simp_all add: w2_def blueprint_story_bible blueprint_report)
  have ms: "fst (manuscript i w2) = Normal" "session (snd (manuscript i w2)) = session w2"
    using manuscript_idle [OF assms(4), of w2] by (simp_all add: bp bp2 s1)
  have res: "fst (script dumps i w) = Normal" "session (snd (script dumps i w)) = session w2"
    by (simp_all add: run fst_and_then snd_and_then bp ms footer_fields w2_def [symmetric])
  show "fst (script dumps i w) = Normal" by (rule res)
  show "story_bible (session (snd (script dumps i w))) =
           Some (case story_bible (session w) of None \<Rightarrow> initial_bible | Some b \<Rightarrow> b)"
    by (simp add: res bp2 s1)
  show "draft (session (snd (script dumps i w))) =
           Some (case draft (session w) of None \<Rightarrow> [] | Some d \<Rightarrow> d)"
    by (simp add: res bp s1)
  show "report (session (snd (script dumps i w))) =
           Some (case report (session w) of None \<Rightarrow> [] | Some r \<Rightarrow> r)"
    by (simp add: res bp2 s1)
  show "scene_card (session (snd (script dumps i w))) =
           Some (case scene_card (session w) of None \<Rightarrow> [] | Some c \<Rightarrow>
                   if c \<noteq> [] then (case scene_card_edit i c of None \<Rightarrow> c | Some t \<Rightarrow> t) else c)"
    by (simp add: res bp split: option.splits)
qed

lemmas released_idle = script_idle [OF released_fields(1,2,3,4), unfolded released_fields(5)]

lemma script_generate:
  assumes "generate_clicked i" "\<not> clear_clicked i"
    and ok: "CHR 0x00 \<notin> set (api_key i)"
  shows "fst (script dumps i w) = Rerun"
    and "story_bible (session (snd (script dumps i w))) =
           Some (case story_bible (session w) of None \<Rightarrow> initial_bible | Some b \<Rightarrow> b)"
    and "draft (session (snd (script dumps i w))) =
           Some (case draft (session w) of None \<Rightarrow> [] | Some d \<Rightarrow> d)"
    and "report (session (snd (script dumps i w))) =
           Some (case report (session w) of None \<Rightarrow> [] | Some r \<Rightarrow> r)"
    and "\<exists>v. scene_card (session (snd (script dumps i w))) =
           Some (fst (generate_outline (premise_input i) (genre_name (genre i))
                   (dumps (case story_bible (session w) of None \<Rightarrow> initial_bible | Some b \<Rightarrow> b)) v))"
proof -
  define w1 where "w1 = llm_setup i (session_init (snd (sidebar i (page_header w))))"
  have s1: "session w1 =
     \<lparr>story_bible = Some (case story_bible (session w) of None \<Rightarrow> initial_bible | Some b \<Rightarrow> b),
      scene_card = Some (case scene_card (session w) of None \<Rightarrow> [] | Some c \<Rightarrow> c),
      draft = Some (case draft (session w) of None \<Rightarrow> [] | Some d \<Rightarrow> d),
      report = Some (case report (session w) of None \<Rightarrow> [] | Some r \<Rightarrow> r)\<rparr>"
    using assms(2) ok
    by (simp add: w1_def llm_setup_session session_init_session sidebar_session page_header_fields)
  have run: "script dumps i w =
      and_then (blueprint dumps i w1) (\<lambda>w2. and_then (manuscript i w2) (\<lambda>w3. (Normal, footer w3)))"
    using assms(2) ok by (simp add: script_Rerun_not_clear w1_def)
  have bp: "fst (blueprint dumps i w1) = Rerun"
    "scene_card (session (snd (blueprint dumps i w1))) =
       Some (fst (generate_outline (premise_input i) (genre_name (genre i))
          (dumps (case story_bible (session w) of None \<Rightarrow> initial_bible | Some b \<Rightarrow> b))
          (emit [Architect_Spinner] (emit [Blueprint_Header, Premise_Area, Generate_Button] w1))))"
    using blueprint_generate [OF assms(1), of w1 _ dumps] by (simp_all add: s1)
  have res: "script dumps i w = blueprint dumps i w1"
    by (simp add: run and_then_Rerun bp)
  show "fst (script dumps i w) = Rerun" by (simp add: res bp)
  show "story_bible (session (snd (script dumps i w))) =
           Some (case story_bible (session w) of None \<Rightarrow> initial_bible | Some b \<Rightarrow> b)"
    by (simp add: res blueprint_story_bible s1)
  show "draft (session (snd (script dumps i w))) =
           Some (case draft (session w) of None \<Rightarrow> [] | Some d \<Rightarrow> d)"
    using assms(1) by (simp add: res blueprint_draft s1)
  show "report (session (snd (script dumps i w))) =
           Some (case report (session w) of None \<Rightarrow> [] | Some r \<Rightarrow> r)"
    by (simp add: res blueprint_report s1)
  show "\<exists>v. scene_card (session (snd (script dumps i w))) =
           Some (fst (generate_outline (premise_input i) (genre_name (genre i))
                   (dumps (case story_bible (session w) of None \<Rightarrow> initial_bible | Some b \<Rightarrow> b)) v))"
    unfolding res bp by blast
qed

lemmas run_defs = interaction_def script_def and_then_def sidebar_def page_header_def session_init_def
  llm_setup_def blueprint_def manuscript_def footer_def emit_def sleep_def released_def
  generate_outline_def write_draft_def critique_draft_def Let_def session_clear_def initial_bible_def

lemma analysed_world_reachable: "reachable plain_dumps analysed_world"
  unfolding analysed_world_def
  by (rule reachable.next_interaction, rule reachable.next_interaction,
      rule reachable.next_interaction, rule reachable.first_load)
     (simp add: fresh_world_def)

lemma analysed_world_bible:
  "story_bible (session analysed_world) =
   Some \<lparr>characters = Map.empty,
         summary = ''Start of the story. -> Processed premise: Jinx hacks the mainframe.''\<rparr>"
  by (simp add: analysed_world_def run_defs at_rest_def fresh_world_def plain_dumps_def)

lemma interaction_llm:
  "api_key i = [] \<Longrightarrow> api_key j = [] \<Longrightarrow> llm (interaction dumps i j w) = None"
  using interaction_cases [of i dumps j w]
  by (auto simp: script_llm released_fields)

lemma generate_outline_nonempty: "fst (generate_outline p g c w) \<noteq> []"
  by (simp add: generate_outline_def Let_def)

lemma generate_outline_text: "fst (generate_outline p g c v) = fst (generate_outline p g c w)"
  by (simp add: generate_outline_def Let_def)

lemma sidebar_page:
  "page (snd (sidebar i w)) =
     page w @ [Sidebar_Header, Api_Key_Input] @
     (if CHR 0x00 \<in> set (api_key i) then []
      else [Divider, Genre_Select, Tone_Slider, Style_Input, Clear_Button])"
  by (auto simp: sidebar_def Let_def emit_def and_then_def)

lemma page_header_page: "page (page_header w) = [Title, Tagline]"
  by (simp add: page_header_def emit_def)

lemma setup_page: "page (llm_setup i (session_init w)) = page w"
  by (simp add: llm_setup_def session_init_def Let_def)

lemma blueprint_page:
  assumes "story_bible (session w) = Some b" and "scene_card (session w) = Some c"
  shows "page (snd (blueprint dumps i w)) =
      page w @ [Blueprint_Header, Premise_Area, Generate_Button] @
      (if generate_clicked i then [Architect_Spinner]
       else (if c \<noteq> [] then [Edit_Info, Scene_Card_Area c, Write_Button] else []) @
            (if c \<noteq> [] \<and> write_clicked i then [Drafter_Spinner] else []))"
    and "fst (blueprint dumps i w) =
      (if generate_clicked i \<or> (c \<noteq> [] \<and> write_clicked i) then Rerun else Normal)"
    and "\<not> (c \<noteq> [] \<and> write_clicked i) \<Longrightarrow>
           draft (session (snd (blueprint dumps i w))) = draft (session w)"
  using assms
  by (auto simp: blueprint_def Let_def and_then_def sleep_fields emit_fields generator_world
        case_prod_beta)

lemma manuscript_page:
  assumes "story_bible (session w) = Some b" and "draft (session w) = Some d"
    and "report (session w) = Some r"
  shows "page (snd (manuscript i w)) =
      page w @ [Manuscript_Header] @
      (if d \<noteq> [] then [Draft_Success, Final_Prose d, Analyze_Button] else []) @
      (if d \<noteq> [] \<and> analyze_clicked i then [Editor_Spinner]
       else if r \<noteq> [] then [Report_Expander r, Bible_Expander b] else [])"
    and "fst (manuscript i w) = (if d \<noteq> [] \<and> analyze_clicked i then Rerun else Normal)"
  using assms
  by (simp_all add: manuscript_def Let_def and_then_def sleep_fields emit_fields generator_world
        case_prod_beta)

lemma footer_page: "page (footer w) = page w @ [Footer_Rule, Footer_Caption]"
  by (simp add: footer_def emit_def)

lemma script_page:
  fixes dumps i w
  defines "b \<equiv> (case story_bible (session w) of None \<Rightarrow> initial_bible | Some x \<Rightarrow> x)"
    and "c \<equiv> (case scene_card (session w) of None \<Rightarrow> [] | Some x \<Rightarrow> x)"
    and "d \<equiv> (case draft (session w) of None \<Rightarrow> [] | Some x \<Rightarrow> x)"
    and "r \<equiv> (case report (session w) of None \<Rightarrow> [] | Some x \<Rightarrow> x)"
  shows "page (snd (script dumps i w)) =
      [Title, Tagline, Sidebar_Header, Api_Key_Input] @
      (if CHR 0x00 \<in> set (api_key i) then []
       else [Divider, Genre_Select, Tone_Slider, Style_Input, Clear_Button] @
         (if clear_clicked i then []
          else [Blueprint_Header, Premise_Area, Generate_Button] @
            (if generate_clicked i then [Architect_Spinner]
             else (if c \<noteq> [] then [Edit_Info, Scene_Card_Area c, Write_Button] else []) @
               (if c \<noteq> [] \<and> write_clicked i then [Drafter_Spinner]
                else [Manuscript_Header] @
                  (if d \<noteq> [] then [Draft_Success, Final_Prose d, Analyze_Button] else []) @
                  (if d \<noteq> [] \<and> analyze_clicked i then [Editor_Spinner]
                   else (if r \<noteq> [] then [Report_Expander r, Bible_Expander b] else []) @
                        [Footer_Rule, Footer_Caption])))))"
    and "fst (script dumps i w) =
      (if CHR 0x00 \<in> set (api_key i) then Raised ValueError
       else if clear_clicked i \<or> generate_clicked i \<or> (c \<noteq> [] \<and> write_clicked i)
          \<or> (d \<noteq> [] \<and> analyze_clicked i)
       then Rerun else Normal)"
proof -
  define w0 where "w0 = snd (sidebar i (page_header w))"
  define w1 where "w1 = llm_setup i (session_init w0)"
  have both: "page (snd (script dumps i w)) =
      [Title, Tagline, Sidebar_Header, Api_Key_Input] @
      (if CHR 0x00 \<in> set (api_key i) then []
       else [Divider, Genre_Select, Tone_Slider, Style_Input, Clear_Button] @
         (if clear_clicked i then []
          else [Blueprint_Header, Premise_Area, Generate_Button] @
            (if generate_clicked i then [Architect_Spinner]
             else (if c \<noteq> [] then [Edit_Info, Scene_Card_Area c, Write_Button] else []) @
               (if c \<noteq> [] \<and> write_clicked i then [Drafter_Spinner]
                else [Manuscript_Header] @
                  (if d \<noteq> [] then [Draft_Success, Final_Prose d, Analyze_Button] else []) @
                  (if d \<noteq> [] \<and> analyze_clicked i then [Editor_Spinner]
                   else (if r \<noteq> [] then [Report_Expander r, Bible_Expander b] else []) @
                        [Footer_Rule, Footer_Caption])))))
     \<and> fst (script dumps i w) =
      (if CHR 0x00 \<in> set (api_key i) then Raised ValueError
       else if clear_clicked i \<or> generate_clicked i \<or> (c \<noteq> [] \<and> write_clicked i)
          \<or> (d \<noteq> [] \<and> analyze_clicked i)
       then Rerun else Normal)"
  proof (cases "CHR 0x00 \<in> set (api_key i)")
    case True
    then show ?thesis
      by (simp add: script_rejected emit_fields page_header_page)
  next
    case ok: False
    have p0: "page w0 = [Title, Tagline, Sidebar_Header, Api_Key_Input, Divider, Genre_Select,
        Tone_Slider, Style_Input, Clear_Button]"
      using ok by (simp add: w0_def sidebar_page page_header_page)
    show ?thesis
    proof (cases "clear_clicked i")
      case True
      then have "script dumps i w = sidebar i (page_header w)"
        using ok by (simp add: script_def and_then_Rerun sidebar_fst)
      then show ?thesis
        using True ok p0 by (simp add: w0_def sidebar_fst)
    next
      case False
      have s1: "story_bible (session w1) = Some b" "scene_card (session w1) = Some c"
          "draft (session w1) = Some d" "report (session w1) = Some r"
        using False ok
        by (simp_all add: w1_def w0_def llm_setup_session session_init_session sidebar_session
              page_header_fields b_def c_def d_def r_def)
      have p1: "page w1 = page w0"
        by (simp add: w1_def setup_page)
      have run: "script dumps i w =
          and_then (blueprint dumps i w1) (\<lambda>w2. and_then (manuscript i w2) (\<lambda>w3. (Normal, footer w3)))"
        using False ok by (simp add: script_Rerun_not_clear w1_def w0_def)
      note bp = blueprint_page [OF s1(1,2), where dumps = dumps and i = i]
      show ?thesis
      proof (cases "fst (blueprint dumps i w1) = Normal")
        case stop: False
        then have "script dumps i w = blueprint dumps i w1"
          by (cases "blueprint dumps i w1") (simp add: run and_then_def split: outcome.splits)
        then show ?thesis
          using stop False ok bp(1,2) by (simp add: p1 p0 split: if_splits)
      next
        case go: True
        define w2 where "w2 = snd (blueprint dumps i w1)"
        have flags: "\<not> generate_clicked i" "\<not> (c \<noteq> [] \<and> write_clicked i)"
          using go bp(2) by (simp_all split: if_splits)
        have s2: "story_bible (session w2) = Some b" "draft (session w2) = Some d"
            "report (session w2) = Some r"
          using bp(3) [OF flags(2)] by (simp_all add: w2_def blueprint_story_bible blueprint_report s1)
        note ms = manuscript_page [OF s2, where i = i]
        have tail: "script dumps i w = and_then (manuscript i w2) (\<lambda>w3. (Normal, footer w3))"
          by (simp add: run and_then_Normal go w2_def)
        have p2: "page w2 = page w0 @ [Blueprint_Header, Premise_Area, Generate_Button] @
            (if c \<noteq> [] then [Edit_Info, Scene_Card_Area c, Write_Button] else [])"
          using go bp(1,2) by (simp add: w2_def p1 split: if_splits)
        show ?thesis
          using False ok flags ms
          by (simp add: tail snd_and_then fst_and_then footer_page p2 p0)
      qed
    qed
  qed
  from both show "page (snd (script dumps i w)) =
      [Title, Tagline, Sidebar_Header, Api_Key_Input] @
      (if CHR 0x00 \<in> set (api_key i) then []
       else [Divider, Genre_Select, Tone_Slider, Style_Input, Clear_Button] @
         (if clear_clicked i then []
          else [Blueprint_Header, Premise_Area, Generate_Button] @
            (if generate_clicked i then [Architect_Spinner]
             else (if c \<noteq> [] then [Edit_Info, Scene_Card_Area c, Write_Button] else []) @
               (if c \<noteq> [] \<and> write_clicked i then [Drafter_Spinner]
                else [Manuscript_Header] @
                  (if d \<noteq> [] then [Draft_Success, Final_Prose d, Analyze_Button] else []) @
                  (if d \<noteq> [] \<and> analyze_clicked i then [Editor_Spinner]
                   else (if r \<noteq> [] then [Report_Expander r, Bible_Expander b] else []) @
                        [Footer_Rule, Footer_Caption])))))"
    by (rule conjunct1)
  from both show "fst (script dumps i w) =
      (if CHR 0x00 \<in> set (api_key i) then Raised ValueError
       else if clear_clicked i \<or> generate_clicked i \<or> (c \<noteq> [] \<and> write_clicked i)
          \<or> (d \<noteq> [] \<and> analyze_clicked i)
       then Rerun else Normal)"
    by (rule conjunct2)
qed

subsection \<open>The generators\<close>

text \<open>
  C1. Each of \<open>generate_outline\<close>, \<open>write_draft\<close> and \<open>critique_draft\<close> is a pure string
  formatter. The returned string is the same in any two surrounding states, so equal arguments
  give equal strings; and the state after the call is the state before it with the seconds
  slept added and nothing else changed: no request to the chat model is recorded, and the
  session state, the environment and \<open>llm\<close> are as they were.
\<close>

theorem generators_are_pure:
  "fst (generate_outline p g c w1) = fst (generate_outline p g c w2)
   \<and> snd (generate_outline p g c w) = w\<lparr>slept := slept w + 2\<rparr>
   \<and> fst (write_draft sc st w1) = fst (write_draft sc st w2)
   \<and> snd (write_draft sc st w) = w\<lparr>slept := slept w + 3\<rparr>
   \<and> fst (critique_draft d g w1) = fst (critique_draft d g w2)
   \<and> snd (critique_draft d g w) = w\<lparr>slept := slept w + 2\<rparr>
   \<and> llm_requests (snd (generate_outline p g c w)) = llm_requests w
   \<and> llm_requests (snd (write_draft sc st w)) = llm_requests w
   \<and> llm_requests (snd (critique_draft d g w)) = llm_requests w"
  by (simp add: generate_outline_def write_draft_def critique_draft_def Let_def sleep_def)

text \<open>
  C6. For every premise, genre and context (and whatever the surrounding state is),
  the outline returned by \<open>generate_outline\<close> contains the premise verbatim.
\<close>

theorem generate_outline_contains_premise:
  "sublist p (fst (generate_outline p g c w))"
  unfolding generate_outline_def Let_def fst_conv
  by (rule sublist_appendI | rule sublist_skip)+

text \<open>
  C8. The result of \<open>critique_draft\<close> does not depend on its draft argument: for every genre
  and any two drafts the calls agree, in the same state and across states. Of the two arguments
  only the genre appears in the returned text.
\<close>

theorem critique_draft_ignores_draft:
  "critique_draft d1 g w = critique_draft d2 g w
   \<and> fst (critique_draft d1 g w1) = fst (critique_draft d2 g w2)
   \<and> sublist g (fst (critique_draft d1 g w))"
proof -
  have "sublist g (fst (critique_draft d1 g w))"
    unfolding critique_draft_def Let_def fst_conv
    by (rule sublist_appendI | rule sublist_skip)+
  then show ?thesis
    by (simp add: critique_draft_def Let_def)
qed

subsection \<open>The credential\<close>

text \<open>
  C7, as the specification states it, has every non-empty API key written to the environment
  variable \<open>OPENAI_API_KEY\<close>. A key that holds the NUL character is not empty, and it is not
  written: the assignment of line 22 raises \<^verbatim>\<open>ValueError\<close>, the execution ends there and the
  variable stays unset.
\<close>

theorem api_key_with_nul_is_not_written:
  "api_key (at_rest\<lparr>api_key := ''sk-'' @ [CHR 0x00] @ ''abc''\<rparr>) \<noteq> []
   \<and> fst (script plain_dumps (at_rest\<lparr>api_key := ''sk-'' @ [CHR 0x00] @ ''abc''\<rparr>) fresh_world)
       = Raised ValueError
   \<and> environ (snd (script plain_dumps (at_rest\<lparr>api_key := ''sk-'' @ [CHR 0x00] @ ''abc''\<rparr>)
        fresh_world)) ''OPENAI_API_KEY'' = None"
  by (simp add: script_environ script_page(2) at_rest_def fresh_world_def)

text \<open>
  C7, amended. In an execution of the script, an API-key field that is not empty and holds
  no NUL character is written, as it is, to the environment variable \<open>OPENAI_API_KEY\<close>; with
  an empty field the environment is left as it was; and with a NUL character in the field
  the execution stops at \<^verbatim>\<open>ValueError\<close> and the environment is left as it was.
\<close>

theorem api_key_written_to_environ:
  "(api_key i \<noteq> [] \<and> CHR 0x00 \<notin> set (api_key i) \<longrightarrow>
      environ (snd (script dumps i w)) = (environ w)(''OPENAI_API_KEY'' \<mapsto> api_key i))
   \<and> (api_key i = [] \<longrightarrow> environ (snd (script dumps i w)) = environ w)
   \<and> (CHR 0x00 \<in> set (api_key i) \<longrightarrow>
      fst (script dumps i w) = Raised ValueError \<and> environ (snd (script dumps i w)) = environ w)"
  by (simp add: script_environ script_page(2))

theorem api_key_written_to_environ_witness:
  "environ (snd (script plain_dumps (at_rest\<lparr>api_key := ''sk-demo''\<rparr>) fresh_world))
     = [''OPENAI_API_KEY'' \<mapsto> ''sk-demo'']
   \<and> environ (snd (script plain_dumps at_rest (fresh_world\<lparr>environ := [''OPENAI_API_KEY'' \<mapsto> ''sk-old'']\<rparr>)))
     = [''OPENAI_API_KEY'' \<mapsto> ''sk-old'']
   \<and> fst (script plain_dumps (at_rest\<lparr>api_key := [CHR 0x00]\<rparr>)
        (fresh_world\<lparr>environ := [''OPENAI_API_KEY'' \<mapsto> ''sk-old'']\<rparr>)) = Raised ValueError
   \<and> environ (snd (script plain_dumps (at_rest\<lparr>api_key := [CHR 0x00]\<rparr>)
        (fresh_world\<lparr>environ := [''OPENAI_API_KEY'' \<mapsto> ''sk-old'']\<rparr>)))
     = [''OPENAI_API_KEY'' \<mapsto> ''sk-old'']"
  using api_key_written_to_environ
      [where i = "at_rest\<lparr>api_key := ''sk-demo''\<rparr>" and dumps = plain_dumps and w = fresh_world]
    api_key_written_to_environ
      [where i = at_rest and dumps = plain_dumps
         and w = "fresh_world\<lparr>environ := [''OPENAI_API_KEY'' \<mapsto> ''sk-old'']\<rparr>"]
    api_key_written_to_environ
      [where i = "at_rest\<lparr>api_key := [CHR 0x00]\<rparr>" and dumps = plain_dumps
         and w = "fresh_world\<lparr>environ := [''OPENAI_API_KEY'' \<mapsto> ''sk-old'']\<rparr>"]
  by (simp add: at_rest_def fresh_world_def)

text \<open>
  C2. With an empty API-key field \<open>llm\<close> is \<open>None\<close>: after an execution that gets past the
  reset button, and after every interaction whose executions see an empty field. The strings
  returned by the three generators are the same whatever \<open>llm\<close> and the environment hold,
  that is, whether or not a credential was supplied.
\<close>

theorem missing_credential_leaves_llm_unset:
  "(api_key i = [] \<and> \<not> clear_clicked i \<longrightarrow> llm (snd (script dumps i w)) = None)
   \<and> (api_key i = [] \<and> api_key j = [] \<longrightarrow> llm (interaction dumps i j w) = None)
   \<and> fst (generate_outline p g c (w\<lparr>llm := l, environ := e\<rparr>)) = fst (generate_outline p g c w)
   \<and> fst (write_draft sc st (w\<lparr>llm := l, environ := e\<rparr>)) = fst (write_draft sc st w)
   \<and> fst (critique_draft d g (w\<lparr>llm := l, environ := e\<rparr>)) = fst (critique_draft d g w)"
  by (simp add: interaction_llm script_llm generate_outline_def write_draft_def critique_draft_def Let_def)

theorem missing_credential_leaves_llm_unset_witness:
  "llm (snd (script plain_dumps at_rest fresh_world)) = None
   \<and> llm (interaction plain_dumps at_rest at_rest
        (fresh_world\<lparr>llm := Some \<lparr>model = ''gpt-4-turbo'', temperature_tenths = 7\<rparr>\<rparr>)) = None"
  using missing_credential_leaves_llm_unset
      [where i = at_rest and j = at_rest and dumps = plain_dumps and w = fresh_world]
    missing_credential_leaves_llm_unset
      [where i = at_rest and j = at_rest and dumps = plain_dumps
         and w = "fresh_world\<lparr>llm := Some \<lparr>model = ''gpt-4-turbo'', temperature_tenths = 7\<rparr>\<rparr>"]
  by (simp add: at_rest_def)

subsection \<open>The session state\<close>

text \<open>
  C4. A click on Clear Session Memory stops the execution at \<^verbatim>\<open>st.rerun()\<close> with an empty
  session state, and after the rerun every session variable has its start value: the story
  bible has no characters and the summary \<open>Start of the story.\<close>, and \<open>scene_card\<close>,
  \<open>draft\<close> and \<open>report\<close> are the empty string. The click is handled, and the rerun gets to
  lines 40 to 50, when line 22 has not raised: the API key that the two executions see holds
  no NUL character.
\<close>

theorem clear_session_memory_resets:
  assumes "clear_clicked i"
    and oki: "CHR 0x00 \<notin> set (api_key i)" and okj: "CHR 0x00 \<notin> set (api_key j)"
  shows "fst (script dumps i w) = Rerun
    \<and> session (snd (script dumps i w)) = session_clear
    \<and> session (interaction dumps i j w) =
        \<lparr>story_bible = Some \<lparr>characters = Map.empty, summary = ''Start of the story.''\<rparr>,
         scene_card = Some [], draft = Some [], report = Some []\<rparr>"
proof -
  have first: "fst (script dumps i w) = Rerun" "session (snd (script dumps i w)) = session_clear"
    using script_clear [OF assms(1) oki] by simp_all
  have "interaction dumps i j w = snd (script dumps (released j) (snd (script dumps i w)))"
    using first(1) by (cases "script dumps i w") (simp add: interaction_def)
  then have "session (interaction dumps i j w) =
        \<lparr>story_bible = Some \<lparr>characters = Map.empty, summary = ''Start of the story.''\<rparr>,
         scene_card = Some [], draft = Some [], report = Some []\<rparr>"
    using released_idle(2,3,4,5) [OF okj, where dumps = dumps and w = "snd (script dumps i w)"]
    by (cases "session (snd (script dumps (released j) (snd (script dumps i w))))")
       (simp add: first session_clear_def initial_bible_def)
  with first show ?thesis by simp
qed

theorem clear_session_memory_resets_witness:
  "clear_clicked (at_rest\<lparr>clear_clicked := True\<rparr>)
   \<and> CHR 0x00 \<notin> set (api_key (at_rest\<lparr>clear_clicked := True\<rparr>))
   \<and> session (interaction plain_dumps (at_rest\<lparr>clear_clicked := True\<rparr>) at_rest drafted_world) =
        \<lparr>story_bible = Some \<lparr>characters = Map.empty, summary = ''Start of the story.''\<rparr>,
         scene_card = Some [], draft = Some [], report = Some []\<rparr>"
  using clear_session_memory_resets
    [where i = "at_rest\<lparr>clear_clicked := True\<rparr>" and j = at_rest and dumps = plain_dumps
       and w = drafted_world]
  by (simp add: at_rest_def)

text \<open>
  C9. A click on Generate Outline, in a state where the story bible, the draft and the report
  are present, changes \<open>scene_card\<close> only: the execution stops at \<^verbatim>\<open>st.rerun()\<close> with
  the new outline in \<open>scene_card\<close>, and the draft, the report and the story bible are what
  they were before the click, both at that point and after the rerun. After the rerun
  \<open>scene_card\<close> holds what the scene-card text area returns for the new outline: the outline
  itself, or the text typed over it. As for C4, the API key that the two executions see holds
  no NUL character, and the reset button is not the one pressed.
\<close>

theorem generate_click_only_sets_scene_card:
  assumes "generate_clicked i" and "\<not> clear_clicked i"
    and "story_bible (session w) = Some b" and "draft (session w) = Some d"
    and "report (session w) = Some r"
    and oki: "CHR 0x00 \<notin> set (api_key i)" and okj: "CHR 0x00 \<notin> set (api_key j)"
  shows "fst (script dumps i w) = Rerun
    \<and> scene_card (session (snd (script dumps i w))) =
        Some (fst (generate_outline (premise_input i) (genre_name (genre i)) (dumps b) w))
    \<and> story_bible (session (snd (script dumps i w))) = Some b
    \<and> draft (session (snd (script dumps i w))) = Some d
    \<and> report (session (snd (script dumps i w))) = Some r
    \<and> story_bible (session (interaction dumps i j w)) = Some b
    \<and> draft (session (interaction dumps i j w)) = Some d
    \<and> report (session (interaction dumps i j w)) = Some r
    \<and> scene_card (session (interaction dumps i j w)) =
        Some (case scene_card_edit j
                (fst (generate_outline (premise_input i) (genre_name (genre i)) (dumps b) w)) of
              None \<Rightarrow> fst (generate_outline (premise_input i) (genre_name (genre i)) (dumps b) w)
            | Some t \<Rightarrow> t)"
proof -
  let ?w' = "snd (script dumps i w)"
  let ?outline = "fst (generate_outline (premise_input i) (genre_name (genre i)) (dumps b) w)"
  note g = script_generate [OF assms(1,2) oki, of dumps w]
  have first: "fst (script dumps i w) = Rerun" "story_bible (session ?w') = Some b"
      "draft (session ?w') = Some d" "report (session ?w') = Some r"
    using g(1,2,3,4) by (simp_all add: assms(3,4,5))
  obtain v where "scene_card (session ?w') =
      Some (fst (generate_outline (premise_input i) (genre_name (genre i)) (dumps b) v))"
    using g(5) by (auto simp: assms(3))
  then have card: "scene_card (session ?w') = Some ?outline"
    by (simp add: generate_outline_text [of _ _ _ v w])
  have filled: "?outline \<noteq> []"
    by (rule generate_outline_nonempty)
  have "interaction dumps i j w = snd (script dumps (released j) ?w')"
    using first(1) by (cases "script dumps i w") (simp add: interaction_def)
  then have "story_bible (session (interaction dumps i j w)) = Some b"
      "draft (session (interaction dumps i j w)) = Some d"
      "report (session (interaction dumps i j w)) = Some r"
      "scene_card (session (interaction dumps i j w)) =
        Some (case scene_card_edit j ?outline of None \<Rightarrow> ?outline | Some t \<Rightarrow> t)"
    using released_idle(2,3,4,5) [OF okj, where dumps = dumps and w = ?w'] filled
    by (simp_all only: first card option.case if_True released_fields(6) not_False_eq_True)
  with first card show ?thesis by simp
qed

theorem generate_click_only_sets_scene_card_witness:
  "generate_clicked (at_rest\<lparr>generate_clicked := True\<rparr>)
   \<and> \<not> clear_clicked (at_rest\<lparr>generate_clicked := True\<rparr>)
   \<and> draft (session (interaction plain_dumps (at_rest\<lparr>generate_clicked := True\<rparr>) at_rest drafted_world))
       = Some ''An earlier draft.''
   \<and> report (session (interaction plain_dumps (at_rest\<lparr>generate_clicked := True\<rparr>) at_rest drafted_world))
       = Some ''An earlier report.''
   \<and> story_bible (session (interaction plain_dumps (at_rest\<lparr>generate_clicked := True\<rparr>) at_rest drafted_world))
       = Some \<lparr>characters = Map.empty,
               summary = ''Start of the story. -> Processed premise: An earlier chapter.''\<rparr>
   \<and> scene_card (session (snd (script plain_dumps (at_rest\<lparr>generate_clicked := True\<rparr>) drafted_world)))
       \<noteq> Some ''An earlier outline.''"
  using generate_click_only_sets_scene_card
    [where i = "at_rest\<lparr>generate_clicked := True\<rparr>" and j = at_rest and dumps = plain_dumps
       and w = drafted_world
       and b = "\<lparr>characters = Map.empty,
                  summary = ''Start of the story. -> Processed premise: An earlier chapter.''\<rparr>"
       and d = "''An earlier draft.''" and r = "''An earlier report.''"]
  by (simp add: at_rest_def drafted_world_def fresh_world_def generate_outline_def Let_def)

text \<open>
  C5. The \<open>characters\<close> field of the story bible is never populated. In every state that a
  sequence of interactions can reach, the story bible, where the session state holds it, has
  the empty mapping as its \<open>characters\<close>; and it is held, with the empty mapping, after every
  interaction, the first one included, in which line 22 has not raised (the API key that the
  executions of the interaction see holds no NUL character). The story bible is absent only
  where an execution has stopped at line 22 over an empty session state.
\<close>

theorem characters_never_populated:
  "(reachable dumps w \<longrightarrow>
      story_bible (session w) = None
      \<or> (\<exists>b. story_bible (session w) = Some b \<and> characters b = Map.empty))
   \<and> ((session w = session_clear \<or> reachable dumps w)
        \<and> CHR 0x00 \<notin> set (api_key i) \<and> CHR 0x00 \<notin> set (api_key j) \<longrightarrow>
      (\<exists>b. story_bible (session (interaction dumps i j w)) = Some b \<and> characters b = Map.empty))"
proof -
  have known: "session w = session_clear \<or> reachable dumps w \<Longrightarrow>
      story_bible (session w) = None \<or> (\<exists>b. story_bible (session w) = Some b \<and> started b)"
    using reachable_started [of dumps w] by (auto simp: session_clear_def)
  show ?thesis
    using known interaction_started [OF known, of i j dumps]
    by (auto simp: started_def)
qed

theorem characters_never_populated_witness:
  "reachable plain_dumps analysed_world
   \<and> (\<exists>b. story_bible (session analysed_world) = Some b \<and> characters b = Map.empty)
   \<and> (\<exists>b. story_bible (session (interaction plain_dumps at_rest at_rest fresh_world)) = Some b
          \<and> characters b = Map.empty)"
  using characters_never_populated
      [where dumps = plain_dumps and w = analysed_world and i = at_rest and j = at_rest]
    characters_never_populated
      [where dumps = plain_dumps and w = fresh_world and i = at_rest and j = at_rest]
    analysed_world_reachable
  by (simp add: analysed_world_bible at_rest_def fresh_world_def)

text \<open>
  C10. In every state that a sequence of interactions can reach, the summary of the story
  bible, where the session state holds the bible, begins with \<open>Start of the story.\<close>; and the
  bible is held, with such a summary, after every interaction, the first one included, in
  which line 22 has not raised (the API key that the executions of the interaction see holds
  no NUL character).
\<close>

theorem summary_keeps_its_start:
  "(reachable dumps w \<longrightarrow>
      story_bible (session w) = None
      \<or> (\<exists>b. story_bible (session w) = Some b \<and> prefix ''Start of the story.'' (summary b)))
   \<and> ((session w = session_clear \<or> reachable dumps w)
        \<and> CHR 0x00 \<notin> set (api_key i) \<and> CHR 0x00 \<notin> set (api_key j) \<longrightarrow>
      (\<exists>b. story_bible (session (interaction dumps i j w)) = Some b
          \<and> prefix ''Start of the story.'' (summary b)))"
proof -
  have known: "session w = session_clear \<or> reachable dumps w \<Longrightarrow>
      story_bible (session w) = None \<or> (\<exists>b. story_bible (session w) = Some b \<and> started b)"
    using reachable_started [of dumps w] by (auto simp: session_clear_def)
  show ?thesis
    using known interaction_started [OF known, of i j dumps]
    by (auto simp: started_def)
qed

theorem summary_keeps_its_start_witness:
  "reachable plain_dumps analysed_world
   \<and> story_bible (session analysed_world) =
       Some \<lparr>characters = Map.empty,
             summary = ''Start of the story. -> Processed premise: Jinx hacks the mainframe.''\<rparr>
   \<and> prefix ''Start of the story.''
        ''Start of the story. -> Processed premise: Jinx hacks the mainframe.''
   \<and> (\<exists>b. story_bible (session (interaction plain_dumps at_rest at_rest fresh_world)) = Some b
          \<and> prefix ''Start of the story.'' (summary b))"
  using summary_keeps_its_start
      [where dumps = plain_dumps and w = analysed_world and i = at_rest and j = at_rest]
    summary_keeps_its_start
      [where dumps = plain_dumps and w = fresh_world and i = at_rest and j = at_rest]
    analysed_world_reachable
  by (simp add: analysed_world_bible at_rest_def fresh_world_def)

subsection \<open>The gates of the page\<close>

text \<open>
  C3, as the specification states it, makes the story bible one of four flags that gate which
  area renders. It gates none: replacing the story bible of any state by any other value, or
  removing it, leaves the elements of the page of every execution the same. (The check of
  line 40 guards the creation of the bible, not the rendering of an area.)
\<close>

theorem story_bible_is_no_gate:
  "\<not> (\<exists>dumps i w b.
        layout (snd (script dumps i (w\<lparr>session := (session w)\<lparr>story_bible := b\<rparr>\<rparr>)))
          \<noteq> layout (snd (script dumps i w)))"
  by (simp add: layout_def script_page(1))

text \<open>
  C3, amended. In an execution that runs to the end, which area renders is decided by
  emptiness checks on three session strings, and each of the three is a gate: the scene-card
  editor with the Write Draft button renders exactly when \<open>scene_card\<close> is not empty, the
  draft with the Analyze and Edit button exactly when \<open>draft\<close> is not empty, and the two
  expanders (editorial report and story bible) exactly when \<open>report\<close> is not empty. Every
  other element, the Clear Session Memory and Generate Outline buttons among them, renders
  unconditionally. The story bible is displayed inside the area that \<open>report\<close> gates.
  (A key that is absent counts with its start value, which lines 40 to 50 give it.)
\<close>

theorem areas_gated_by_three_strings:
  fixes dumps i w
  defines "b \<equiv> (case story_bible (session w) of None \<Rightarrow> initial_bible | Some x \<Rightarrow> x)"
    and "c \<equiv> (case scene_card (session w) of None \<Rightarrow> [] | Some x \<Rightarrow> x)"
    and "d \<equiv> (case draft (session w) of None \<Rightarrow> [] | Some x \<Rightarrow> x)"
    and "r \<equiv> (case report (session w) of None \<Rightarrow> [] | Some x \<Rightarrow> x)"
  assumes "fst (script dumps i w) = Normal"
  shows "page (snd (script dumps i w)) =
      [Title, Tagline, Sidebar_Header, Api_Key_Input, Divider, Genre_Select, Tone_Slider,
       Style_Input, Clear_Button, Blueprint_Header, Premise_Area, Generate_Button] @
      (if c \<noteq> [] then [Edit_Info, Scene_Card_Area c, Write_Button] else []) @
      [Manuscript_Header] @
      (if d \<noteq> [] then [Draft_Success, Final_Prose d, Analyze_Button] else []) @
      (if r \<noteq> [] then [Report_Expander r, Bible_Expander b] else []) @
      [Footer_Rule, Footer_Caption]"
proof -
  have "CHR 0x00 \<notin> set (api_key i)" "\<not> clear_clicked i" "\<not> generate_clicked i"
      "\<not> (c \<noteq> [] \<and> write_clicked i)" "\<not> (d \<noteq> [] \<and> analyze_clicked i)"
    using assms(5) unfolding script_page(2) [of dumps i w] c_def d_def
    by (simp_all split: if_splits)
  then show ?thesis
    unfolding script_page(1) [of dumps i w] b_def c_def d_def r_def by simp
qed

theorem areas_gated_by_three_strings_witness:
  "fst (script plain_dumps at_rest drafted_world) = Normal
   \<and> page (snd (script plain_dumps at_rest drafted_world)) =
      [Title, Tagline, Sidebar_Header, Api_Key_Input, Divider, Genre_Select, Tone_Slider,
       Style_Input, Clear_Button, Blueprint_Header, Premise_Area, Generate_Button,
       Edit_Info, Scene_Card_Area ''An earlier outline.'', Write_Button,
       Manuscript_Header,
       Draft_Success, Final_Prose ''An earlier draft.'', Analyze_Button,
       Report_Expander ''An earlier report.'',
       Bible_Expander \<lparr>characters = Map.empty,
         summary = ''Start of the story. -> Processed premise: An earlier chapter.''\<rparr>,
       Footer_Rule, Footer_Caption]
   \<and> page (snd (script plain_dumps at_rest fresh_world)) =
      [Title, Tagline, Sidebar_Header, Api_Key_Input, Divider, Genre_Select, Tone_Slider,
       Style_Input, Clear_Button, Blueprint_Header, Premise_Area, Generate_Button,
       Manuscript_Header, Footer_Rule, Footer_Caption]"
proof -
  have n1: "fst (script plain_dumps at_rest drafted_world) = Normal"
    by (simp add: script_page(2) at_rest_def drafted_world_def fresh_world_def)
  have n2: "fst (script plain_dumps at_rest fresh_world) = Normal"
    by (simp add: script_page(2) at_rest_def fresh_world_def session_clear_def)
  show ?thesis
    using n1 areas_gated_by_three_strings [OF n1] areas_gated_by_three_strings [OF n2]
    by (simp add: drafted_world_def fresh_world_def session_clear_def)
qed

end
